theory Spec2Isabelle
  imports Complex_Main
begin

section \<open>Python values, strings and exceptions\<close>

text \<open>
  A Python \<open>str\<close> is a sequence of Unicode code points. Code points are natural numbers
  here, so that \<open>str.strip\<close> can be modelled with the whole set of characters it removes
  and not only the ASCII ones.
\<close>

type_synonym pystr = "nat list"

definition py :: "string \<Rightarrow> pystr" where
  "py s = map of_char s"

text \<open>
  \<open>parse\<close> accepts any value (\<open>_validate_input\<close> is annotated \<open>code: Any\<close>), so the
  argument is a value of a small universe of Python objects, of which only \<open>PyStr\<close>
  is an instance of \<open>str\<close>.
\<close>

datatype pyval =
    PyNone
  | PyBool bool
  | PyInt int
  | PyStr pystr
  | PyList "pyval list"

definition isinstance_str :: "pyval \<Rightarrow> bool" where
  "isinstance_str v = (case v of PyStr s \<Rightarrow> True | _ \<Rightarrow> False)"

text \<open>
  The attributes of a \<open>SyntaxError\<close> that \<open>_format_syntax_errors\<close> reads. In Python
  \<open>lineno\<close> and \<open>offset\<close> are two separate attributes, each an integer or \<open>None\<close>.
\<close>

record syntax_error =
  lineno :: "int option"
  offset :: "int option"
  msg :: pystr

text \<open>
  What a call can raise, as far as the handlers of \<open>_safe_parse\<close> tell exceptions
  apart: a \<open>SyntaxError\<close> (or one of its subclasses), or any other instance of
  \<open>Exception\<close>, which carries the text \<open>str(e)\<close>. \<open>ast.parse\<close> raises nothing else;
  \<open>KeyboardInterrupt\<close> and \<open>SystemExit\<close> are delivered from outside the call and are
  not part of the model.
\<close>

datatype py_exc =
    SyntaxError syntax_error
  | Exception pystr

text \<open>
  The characters \<open>str.strip()\<close> removes when called without argument: those for which
  \<open>str.isspace\<close> holds.
\<close>

definition isspace :: "nat \<Rightarrow> bool" where
  "isspace c = (c \<in> set [9, 10, 11, 12, 13, 28, 29, 30, 31, 32, 133, 160, 5760,
       8192, 8193, 8194, 8195, 8196, 8197, 8198, 8199, 8200, 8201, 8202,
       8232, 8233, 8239, 8287, 12288])"

definition strip :: "pystr \<Rightarrow> pystr" where
  "strip s = rev (dropWhile isspace (rev (dropWhile isspace s)))"

text \<open>
  The method call \<open>code.strip()\<close> on an arbitrary value: only a \<open>str\<close> has the method
  among the values modelled, every other value raises \<open>AttributeError\<close>.
\<close>

definition method_strip :: "pyval \<Rightarrow> py_exc + pystr" where
  "method_strip v =
     (case v of
        PyStr s \<Rightarrow> Inr (strip s)
      | _ \<Rightarrow> Inl (Exception (py ''object has no attribute strip'')))"

section \<open>The data of the parser\<close>

text \<open>The dictionaries appended to \<open>self.syntax_errors\<close>; the key \<open>"type"\<close> is \<open>kind\<close>.\<close>

record diagnostic =
  kind :: pystr
  line :: "int option"
  column :: "int option"
  message :: pystr
  severity :: pystr
  stage :: pystr

text \<open>The dictionary returned by \<open>_build_result\<close>.\<close>

record 'ast ParseResult =
  success :: bool
  ast_tree :: "'ast option"
  result_syntax_errors :: "diagnostic list"
  result_parsing_time :: real

text \<open>The attributes of a \<open>CodeParser\<close> instance, with the spelling of the source.\<close>

record 'ast CodeParser =
  filenmae :: "pystr option"
  source_code :: "pyval option"
  ast_trees :: "'ast option"
  syntax_errors :: "diagnostic list"
  parse_success :: bool
  parsing_time :: real

section \<open>The environment: the library parser and the clock\<close>

text \<open>
  \<open>ast.parse\<close> and \<open>time.time\<close> are library calls. The parser is a function of its
  argument that returns a tree or raises; \<open>time_time E n\<close> is the value the \<open>n\<close>-th call of
  \<open>time.time()\<close> returns. The \<open>world\<close> records the calls made so far: how many times the
  clock was read and with which arguments \<open>ast.parse\<close> was called.
\<close>

record 'ast env =
  ast_parse :: "pyval \<Rightarrow> py_exc + 'ast"
  time_time :: "nat \<Rightarrow> real"

record world =
  time_calls :: nat
  parse_calls :: "pyval list"

definition call_time :: "'ast env \<Rightarrow> world \<Rightarrow> real \<times> world" where
  "call_time E w = (time_time E (time_calls w), w\<lparr>time_calls := Suc (time_calls w)\<rparr>)"

definition call_ast_parse :: "'ast env \<Rightarrow> pyval \<Rightarrow> world \<Rightarrow> (py_exc + 'ast) \<times> world" where
  "call_ast_parse E code w = (ast_parse E code, w\<lparr>parse_calls := parse_calls w @ [code]\<rparr>)"

section \<open>The methods of \<open>CodeParser\<close>\<close>

definition init :: "pystr option \<Rightarrow> 'ast CodeParser" where
  "init filename =
     \<lparr>filenmae = filename, source_code = None, ast_trees = None,
      syntax_errors = [], parse_success = False, parsing_time = 0\<rparr>"

definition reset_state :: "'ast CodeParser \<Rightarrow> 'ast CodeParser" where
  "reset_state self =
     self\<lparr>ast_trees := None, syntax_errors := [], parse_success := False, parsing_time := 0\<rparr>"

definition validate_input :: "pyval \<Rightarrow> 'ast CodeParser \<Rightarrow> py_exc + (bool \<times> 'ast CodeParser)" where
  "validate_input code self =
     (if \<not> isinstance_str code then
        Inr (False, self\<lparr>syntax_errors := syntax_errors self @
          [\<lparr>kind = py ''InputError'', line = None, column = None,
            message = py ''Source code must be a string'',
            severity = py ''error'', stage = py ''syntax''\<rparr>]\<rparr>)
      else
        (case method_strip code of
           Inl e \<Rightarrow> Inl e
         | Inr s \<Rightarrow>
             if s = py '''' then
               Inr (False, self\<lparr>syntax_errors := syntax_errors self @
                 [\<lparr>kind = py ''InputError'', line = None, column = None,
                   message = py ''Source code must be a string'',
                   severity = py ''error'', stage = py ''syntax''\<rparr>]\<rparr>)
             else Inr (True, self)))"

definition format_syntax_errors :: "syntax_error \<Rightarrow> diagnostic" where
  "format_syntax_errors exc =
     \<lparr>kind = py ''ParseError'', line = lineno exc, column = offset exc,
      message = msg exc, severity = py ''error'', stage = py ''syntax''\<rparr>"

text \<open>
  \<open>_safe_parse\<close>: the \<open>try\<close> body stores the tree and sets the flag; the first handler
  takes a \<open>SyntaxError\<close>, the second every other \<open>Exception\<close>.
\<close>

definition safe_parse ::
  "'ast env \<Rightarrow> pyval \<Rightarrow> 'ast CodeParser \<times> world \<Rightarrow> py_exc + ('ast CodeParser \<times> world)" where
  "safe_parse E code sw =
     (case sw of (self, w) \<Rightarrow>
        (case call_ast_parse E code w of
           (Inr tree, w') \<Rightarrow>
             Inr (self\<lparr>ast_trees := Some tree, parse_success := True\<rparr>, w')
         | (Inl (SyntaxError e), w') \<Rightarrow>
             Inr (self\<lparr>parse_success := False,
                       syntax_errors := syntax_errors self @ [format_syntax_errors e]\<rparr>, w')
         | (Inl (Exception text), w') \<Rightarrow>
             Inr (self\<lparr>parse_success := False,
                       syntax_errors := syntax_errors self @
                         [\<lparr>kind = py ''ParseError'', line = None, column = None,
                           message = text, severity = py ''error'',
                           stage = py ''syntax''\<rparr>]\<rparr>, w')))"

definition build_result :: "'ast CodeParser \<Rightarrow> 'ast ParseResult" where
  "build_result self =
     \<lparr>success = parse_success self, ast_tree = ast_trees self,
      result_syntax_errors = syntax_errors self, result_parsing_time = parsing_time self\<rparr>"

definition parse ::
  "'ast env \<Rightarrow> pyval \<Rightarrow> 'ast CodeParser \<times> world
     \<Rightarrow> py_exc + ('ast ParseResult \<times> 'ast CodeParser \<times> world)" where
  "parse E code sw =
     (case sw of (self0, w0) \<Rightarrow>
        (let self1 = (reset_state self0)\<lparr>source_code := Some code\<rparr>;
             (start_time, w1) = call_time E w0
         in case validate_input code self1 of
              Inl e \<Rightarrow> Inl e
            | Inr (ok, self2) \<Rightarrow>
                if \<not> ok then
                  (let (t, w2) = call_time E w1;
                       self3 = self2\<lparr>parsing_time := t - start_time\<rparr>
                   in Inr (build_result self3, self3, w2))
                else
                  (case safe_parse E code (self2, w1) of
                     Inl e \<Rightarrow> Inl e
                   | Inr (self3, w2) \<Rightarrow>
                       (let (t, w3) = call_time E w2;
                            self4 = self3\<lparr>parsing_time := t - start_time\<rparr>
                        in Inr (build_result self4, self4, w3)))))"

text \<open>
  The accessors are methods of the instance too: each returns its value together with
  the instance it leaves behind.
\<close>

definition has_syntax_errors :: "'ast CodeParser \<Rightarrow> bool \<times> 'ast CodeParser" where
  "has_syntax_errors self = (length (syntax_errors self) > 0, self)"

definition get_ast :: "'ast CodeParser \<Rightarrow> 'ast option \<times> 'ast CodeParser" where
  "get_ast self = ((if parse_success self then ast_trees self else None), self)"

definition get_errors :: "'ast CodeParser \<Rightarrow> diagnostic list \<times> 'ast CodeParser" where
  "get_errors self = (syntax_errors self, self)"

section \<open>Auxiliary notions for the statements\<close>

text \<open>
  The inputs \<open>_validate_input\<close> turns away: a value that is not a \<open>str\<close>, or a \<open>str\<close> that
  \<open>strip\<close> leaves empty.
\<close>

definition blank_input :: "pyval \<Rightarrow> bool" where
  "blank_input code = (case code of PyStr s \<Rightarrow> strip s = [] | _ \<Rightarrow> True)"

text \<open>The difference of the two clock readings of a call of \<open>parse\<close> that starts in \<open>w\<close>.\<close>

definition elapsed :: "'ast env \<Rightarrow> world \<Rightarrow> real" where
  "elapsed E w = time_time E (Suc (time_calls w)) - time_time E (time_calls w)"

text \<open>
  A small stand-in for the library, to evaluate the methods on concrete inputs: a parser
  that rejects a NUL character with a \<open>SyntaxError\<close> without position, fails on a lone
  surrogate with another exception, reports an opening parenthesis that is never closed
  at the end of the text, and returns the length of the text as its tree otherwise; and
  two clocks, one that advances by a second at each reading and one that is set back.
\<close>

definition toy_ast_parse :: "pyval \<Rightarrow> py_exc + nat" where
  "toy_ast_parse v =
     (case v of
        PyStr s \<Rightarrow>
          if 0 \<in> set s then
            Inl (SyntaxError \<lparr>lineno = None, offset = None,
                   msg = py ''source code string cannot contain null bytes''\<rparr>)
          else if 55296 \<in> set s then
            Inl (Exception (py ''surrogates not allowed''))
          else if 40 \<in> set s \<and> 41 \<notin> set s then
            Inl (SyntaxError \<lparr>lineno = Some 1, offset = Some (int (length s)),
                   msg = py ''invalid syntax''\<rparr>)
          else Inr (length s)
      | _ \<Rightarrow> Inl (Exception (py ''expected str'')))"

definition toy_env :: "nat env" where
  "toy_env = \<lparr>ast_parse = toy_ast_parse, time_time = (\<lambda>n. real n)\<rparr>"


definition world0 :: world where
  "world0 = \<lparr>time_calls = 0, parse_calls = []\<rparr>"

section \<open>What one call of \<open>parse\<close> computes\<close>

lemma blank_input_iff:
  "blank_input code \<longleftrightarrow> \<not> isinstance_str code \<or> (\<exists>s. code = PyStr s \<and> strip s = [])"
  by (cases code) (simp_all add: blank_input_def isinstance_str_def)

lemma strip_empty_iff: "strip s = [] \<longleftrightarrow> (\<forall>c \<in> set s. isspace c)"
proof
  assume "strip s = []"
  then have "\<forall>c \<in> set (dropWhile isspace s). isspace c"
    by (simp add: strip_def dropWhile_eq_Nil_conv)
  then have "dropWhile isspace s = []"
    by (metis hd_dropWhile hd_in_set)
  then show "\<forall>c \<in> set s. isspace c"
    by simp
next
  assume "\<forall>c \<in> set s. isspace c"
  then have d: "dropWhile isspace s = []"
    by simp
  show "strip s = []"
    unfolding strip_def d by simp
qed

lemma validate_input_rejects:
  "blank_input code \<Longrightarrow>
     validate_input code self =
       Inr (False, self\<lparr>syntax_errors := syntax_errors self @
          [\<lparr>kind = py ''InputError'', line = None, column = None,
            message = py ''Source code must be a string'',
            severity = py ''error'', stage = py ''syntax''\<rparr>]\<rparr>)"
  by (cases code) (simp_all add: blank_input_def validate_input_def isinstance_str_def
        method_strip_def py_def)

lemma validate_input_accepts:
  "\<not> blank_input code \<Longrightarrow> validate_input code self = Inr (True, self)"
  by (cases code) (simp_all add: blank_input_def validate_input_def isinstance_str_def
        method_strip_def py_def)

lemma validate_input_never_raises: "\<exists>ok self'. validate_input code self = Inr (ok, self')"
  by (cases "blank_input code") (auto simp add: validate_input_rejects validate_input_accepts)

lemma safe_parse_never_raises: "\<exists>self' w'. safe_parse E code (self, w) = Inr (self', w')"
  by (simp add: safe_parse_def call_ast_parse_def split: sum.split py_exc.split)

lemma parse_rejected:
  "blank_input code \<Longrightarrow>
     parse E code (self, w) =
       (let self' = self\<lparr>source_code := Some code, ast_trees := None,
                         syntax_errors :=
                           [\<lparr>kind = py ''InputError'', line = None, column = None,
                             message = py ''Source code must be a string'',
                             severity = py ''error'', stage = py ''syntax''\<rparr>],
                         parse_success := False, parsing_time := elapsed E w\<rparr>
        in Inr (build_result self', self', w\<lparr>time_calls := Suc (Suc (time_calls w))\<rparr>))"
  by (simp add: parse_def validate_input_rejects reset_state_def call_time_def Let_def
        build_result_def elapsed_def)

lemma parse_returns:
  "\<not> blank_input code \<Longrightarrow> ast_parse E code = Inr tree \<Longrightarrow>
     parse E code (self, w) =
       (let self' = self\<lparr>source_code := Some code, ast_trees := Some tree,
                         syntax_errors := [], parse_success := True,
                         parsing_time := elapsed E w\<rparr>
        in Inr (build_result self', self',
                w\<lparr>time_calls := Suc (Suc (time_calls w)),
                  parse_calls := parse_calls w @ [code]\<rparr>))"
  by (simp add: parse_def validate_input_accepts reset_state_def call_time_def Let_def
        safe_parse_def call_ast_parse_def build_result_def elapsed_def)

lemma parse_syntax_error:
  "\<not> blank_input code \<Longrightarrow> ast_parse E code = Inl (SyntaxError e) \<Longrightarrow>
     parse E code (self, w) =
       (let self' = self\<lparr>source_code := Some code, ast_trees := None,
                         syntax_errors := [format_syntax_errors e],
                         parse_success := False, parsing_time := elapsed E w\<rparr>
        in Inr (build_result self', self',
                w\<lparr>time_calls := Suc (Suc (time_calls w)),
                  parse_calls := parse_calls w @ [code]\<rparr>))"
  by (simp add: parse_def validate_input_accepts reset_state_def call_time_def Let_def
        safe_parse_def call_ast_parse_def build_result_def elapsed_def)

lemma parse_exception:
  "\<not> blank_input code \<Longrightarrow> ast_parse E code = Inl (Exception text) \<Longrightarrow>
     parse E code (self, w) =
       (let self' = self\<lparr>source_code := Some code, ast_trees := None,
                         syntax_errors :=
                           [\<lparr>kind = py ''ParseError'', line = None, column = None,
                             message = text, severity = py ''error'',
                             stage = py ''syntax''\<rparr>],
                         parse_success := False, parsing_time := elapsed E w\<rparr>
        in Inr (build_result self', self',
                w\<lparr>time_calls := Suc (Suc (time_calls w)),
                  parse_calls := parse_calls w @ [code]\<rparr>))"
  by (simp add: parse_def validate_input_accepts reset_state_def call_time_def Let_def
        safe_parse_def call_ast_parse_def build_result_def elapsed_def)

lemma not_blank_iff: "\<not> blank_input (PyStr s) \<longleftrightarrow> strip s \<noteq> []"
  by (simp add: blank_input_def)

lemma safe_parse_syntax_error:
  "ast_parse E code = Inl (SyntaxError e) \<Longrightarrow>
     safe_parse E code (self, w) =
       Inr (self\<lparr>parse_success := False,
                 syntax_errors := syntax_errors self @ [format_syntax_errors e]\<rparr>,
            w\<lparr>parse_calls := parse_calls w @ [code]\<rparr>)"
  by (simp add: safe_parse_def call_ast_parse_def)

lemma safe_parse_exception:
  "ast_parse E code = Inl (Exception descr) \<Longrightarrow>
     safe_parse E code (self, w) =
       Inr (self\<lparr>parse_success := False,
                 syntax_errors := syntax_errors self @
                   [\<lparr>kind = py ''ParseError'', line = None, column = None,
                     message = descr, severity = py ''error'', stage = py ''syntax''\<rparr>]\<rparr>,
            w\<lparr>parse_calls := parse_calls w @ [code]\<rparr>)"
  by (simp add: safe_parse_def call_ast_parse_def)

text \<open>The four ways a call can go, as a case rule.\<close>

lemma parse_outcome_cases [case_names rejected returns syntax_error exception]:
  obtains "blank_input code"
  | tree where "\<not> blank_input code" and "ast_parse E code = Inr tree"
  | e where "\<not> blank_input code" and "ast_parse E code = Inl (SyntaxError e)"
  | descr where "\<not> blank_input code" and "ast_parse E code = Inl (Exception descr)"
proof (cases "blank_input code")
  case True
  then show ?thesis by (rule that(1))
next
  case False
  show ?thesis
  proof (cases "ast_parse E code")
    case (Inr tree)
    with False show ?thesis by (rule that(2))
  next
    case (Inl x)
    show ?thesis
    proof (cases x)
      case (SyntaxError e)
      with False Inl show ?thesis by (simp add: that(3))
    next
      case (Exception descr)
      with False Inl show ?thesis by (simp add: that(4))
    qed
  qed
qed

subsection \<open>The examples, evaluated\<close>

lemma not_blank_valid: "\<not> blank_input (PyStr (py ''x = 1 + 2''))"
  by (simp add: blank_input_def strip_def py_def isspace_def)

lemma not_blank_malformed: "\<not> blank_input (PyStr (py ''def f(:''))"
  by (simp add: blank_input_def strip_def py_def isspace_def)

lemma not_blank_surrogate: "\<not> blank_input (PyStr [120, 55296])"
  by (simp add: blank_input_def strip_def isspace_def)

lemma blank_spaces: "blank_input (PyStr (py ''  ''))"
  by (simp add: blank_input_def strip_def py_def isspace_def)

lemma toy_valid: "ast_parse toy_env (PyStr (py ''x = 1 + 2'')) = Inr 9"
  by (simp add: toy_env_def toy_ast_parse_def py_def)

lemma toy_malformed:
  "ast_parse toy_env (PyStr (py ''def f(:'')) =
     Inl (SyntaxError \<lparr>lineno = Some 1, offset = Some 7, msg = py ''invalid syntax''\<rparr>)"
  by (simp add: toy_env_def toy_ast_parse_def py_def)

lemma toy_surrogate:
  "ast_parse toy_env (PyStr [120, 55296]) = Inl (Exception (py ''surrogates not allowed''))"
  by (simp add: toy_env_def toy_ast_parse_def)

lemma parse_valid_example:
  "parse toy_env (PyStr (py ''x = 1 + 2'')) (init None, world0) =
     Inr (\<lparr>success = True, ast_tree = Some 9, result_syntax_errors = [],
            result_parsing_time = 1\<rparr>,
          \<lparr>filenmae = None, source_code = Some (PyStr (py ''x = 1 + 2'')),
            ast_trees = Some 9, syntax_errors = [], parse_success = True,
            parsing_time = 1\<rparr>,
          \<lparr>time_calls = 2, parse_calls = [PyStr (py ''x = 1 + 2'')]\<rparr>)"
  by (simp add: parse_returns [OF not_blank_valid toy_valid] Let_def build_result_def
        init_def world0_def elapsed_def)
     (simp add: toy_env_def)

lemma parse_malformed_example:
  "parse toy_env (PyStr (py ''def f(:'')) (init None, world0) =
     Inr (\<lparr>success = False, ast_tree = None,
            result_syntax_errors =
              [\<lparr>kind = py ''ParseError'', line = Some 1, column = Some 7,
                message = py ''invalid syntax'', severity = py ''error'',
                stage = py ''syntax''\<rparr>],
            result_parsing_time = 1\<rparr>,
          \<lparr>filenmae = None, source_code = Some (PyStr (py ''def f(:'')),
            ast_trees = None,
            syntax_errors =
              [\<lparr>kind = py ''ParseError'', line = Some 1, column = Some 7,
                message = py ''invalid syntax'', severity = py ''error'',
                stage = py ''syntax''\<rparr>],
            parse_success = False, parsing_time = 1\<rparr>,
          \<lparr>time_calls = 2, parse_calls = [PyStr (py ''def f(:'')]\<rparr>)"
  by (simp add: parse_syntax_error [OF not_blank_malformed toy_malformed] Let_def
        build_result_def init_def world0_def elapsed_def format_syntax_errors_def)
     (simp add: toy_env_def)


lemma parse_surrogate_example:
  "parse toy_env (PyStr [120, 55296]) (init None, world0) =
     Inr (\<lparr>success = False, ast_tree = None,
            result_syntax_errors =
              [\<lparr>kind = py ''ParseError'', line = None, column = None,
                message = py ''surrogates not allowed'', severity = py ''error'',
                stage = py ''syntax''\<rparr>],
            result_parsing_time = 1\<rparr>,
          \<lparr>filenmae = None, source_code = Some (PyStr [120, 55296]),
            ast_trees = None,
            syntax_errors =
              [\<lparr>kind = py ''ParseError'', line = None, column = None,
                message = py ''surrogates not allowed'', severity = py ''error'',
                stage = py ''syntax''\<rparr>],
            parse_success = False, parsing_time = 1\<rparr>,
          \<lparr>time_calls = 2, parse_calls = [PyStr [120, 55296]]\<rparr>)"
  by (simp add: parse_exception [OF not_blank_surrogate toy_surrogate] Let_def
        build_result_def init_def world0_def elapsed_def)
     (simp add: toy_env_def)


section \<open>The claims\<close>



text \<open>
  C2. The result of \<open>parse\<close> on any input, from any state of the instance: a success has
  no diagnostic and has a tree; a failure has at least one diagnostic and no tree.
  \<open>success\<close> is a Boolean, so the two cases exclude each other and leave no third.
\<close>

theorem parse_outcome_invariant:
  "\<exists>r self' w'. parse E code (self, w) = Inr (r, self', w') \<and>
     (success r \<longrightarrow> result_syntax_errors r = [] \<and> ast_tree r \<noteq> None) \<and>
     (\<not> success r \<longrightarrow> result_syntax_errors r \<noteq> [] \<and> ast_tree r = None)"
proof (cases rule: parse_outcome_cases [where code = code and E = E])
  case rejected
  then show ?thesis by (simp add: parse_rejected Let_def build_result_def)
next
  case (returns tree)
  then show ?thesis by (simp add: parse_returns Let_def build_result_def)
next
  case (syntax_error e)
  then show ?thesis by (simp add: parse_syntax_error Let_def build_result_def)
next
  case (exception descr)
  then show ?thesis by (simp add: parse_exception Let_def build_result_def)
qed

text \<open>Both cases occur: scenario A succeeds, scenario B fails.\<close>

theorem parse_outcome_invariant_witness:
  "(\<exists>r self' w'. parse toy_env (PyStr (py ''x = 1 + 2'')) (init None, world0) = Inr (r, self', w') \<and>
      success r \<and> result_syntax_errors r = [] \<and> ast_tree r \<noteq> None) \<and>
   (\<exists>r self' w'. parse toy_env (PyStr (py ''def f(:'')) (init None, world0) = Inr (r, self', w') \<and>
      \<not> success r \<and> result_syntax_errors r \<noteq> [] \<and> ast_tree r = None)"
  using parse_outcome_invariant [of toy_env "PyStr (py ''x = 1 + 2'')" "init None" world0]
    parse_outcome_invariant [of toy_env "PyStr (py ''def f(:'')" "init None" world0]
  by (simp add: parse_malformed_example parse_valid_example)

text \<open>
  C3. An input that is not a \<open>str\<close>, or a \<open>str\<close> that is empty once stripped, is
  rejected: the result is a failure without tree, with exactly one diagnostic, of kind
  \<open>InputError\<close> and without line and column, and \<open>ast.parse\<close> has not been called.
\<close>

theorem parse_rejects_bad_input:
  assumes "\<not> isinstance_str code \<or> (\<exists>s. code = PyStr s \<and> strip s = [])"
  shows "\<exists>r self' w' d. parse E code (self, w) = Inr (r, self', w') \<and>
     \<not> success r \<and> ast_tree r = None \<and>
     result_syntax_errors r = [d] \<and> kind d = py ''InputError'' \<and>
     line d = None \<and> column d = None \<and>
     parse_calls w' = parse_calls w"
proof -
  from assms have "blank_input code"
    by (simp add: blank_input_iff)
  then show ?thesis
    by (simp add: parse_rejected Let_def build_result_def)
qed

text \<open>Scenario D, the number 42, and a text of two spaces.\<close>

theorem parse_rejects_bad_input_witness:
  "(\<not> isinstance_str (PyInt 42) \<and>
    (\<exists>r self' w' d. parse toy_env (PyInt 42) (init None, world0) = Inr (r, self', w') \<and>
       \<not> success r \<and> ast_tree r = None \<and>
       result_syntax_errors r = [d] \<and> kind d = py ''InputError'' \<and>
       line d = None \<and> column d = None \<and>
       parse_calls w' = parse_calls world0)) \<and>
   (strip (py ''  '') = [] \<and>
    (\<exists>r self' w' d. parse toy_env (PyStr (py ''  '')) (init None, world0) = Inr (r, self', w') \<and>
       \<not> success r \<and> ast_tree r = None \<and>
       result_syntax_errors r = [d] \<and> kind d = py ''InputError'' \<and>
       line d = None \<and> column d = None \<and>
       parse_calls w' = parse_calls world0))"
proof -
  have h1: "\<not> isinstance_str (PyInt 42) \<or> (\<exists>s. PyInt 42 = PyStr s \<and> strip s = [])"
    by (simp add: isinstance_str_def)
  have h2: "strip (py ''  '') = []"
    by (simp add: strip_def py_def isspace_def)
  then have h3: "\<not> isinstance_str (PyStr (py ''  '')) \<or>
      (\<exists>s. PyStr (py ''  '') = PyStr s \<and> strip s = [])"
    by simp
  from parse_rejects_bad_input [OF h1, of toy_env "init None" world0]
    parse_rejects_bad_input [OF h3, of toy_env "init None" world0] h2
  show ?thesis
    by (simp add: isinstance_str_def)
qed

text \<open>
  C4. A \<open>str\<close> that passes the validation, so that the parse is attempted, and whose
  parse raises a \<open>SyntaxError\<close>: the result is a failure whose only diagnostic is of
  kind \<open>ParseError\<close>, with the line, the column and the message of the exception; and
  \<open>_safe_parse\<close> appends exactly this one diagnostic to the list it finds.
\<close>

theorem syntax_error_diagnostic:
  assumes "strip s \<noteq> []" and "ast_parse E (PyStr s) = Inl (SyntaxError e)"
  shows "\<exists>r self' w' d. parse E (PyStr s) (self, w) = Inr (r, self', w') \<and>
     \<not> success r \<and> result_syntax_errors r = [d] \<and> kind d = py ''ParseError'' \<and>
     line d = lineno e \<and> column d = offset e \<and> message d = msg e \<and>
     safe_parse E (PyStr s) (self, w0) =
       Inr (self\<lparr>parse_success := False, syntax_errors := syntax_errors self @ [d]\<rparr>,
            w0\<lparr>parse_calls := parse_calls w0 @ [PyStr s]\<rparr>)"
proof -
  from assms(1) have "\<not> blank_input (PyStr s)"
    by (simp add: not_blank_iff)
  with assms(2) show ?thesis
    by (simp add: parse_syntax_error safe_parse_syntax_error Let_def build_result_def
          format_syntax_errors_def)
qed

text \<open>Scenario B: line 1, column 7, the parser's message.\<close>

theorem syntax_error_diagnostic_witness:
  "strip (py ''def f(:'') \<noteq> [] \<and>
   ast_parse toy_env (PyStr (py ''def f(:'')) =
     Inl (SyntaxError \<lparr>lineno = Some 1, offset = Some 7, msg = py ''invalid syntax''\<rparr>) \<and>
   (\<exists>r self' w' d. parse toy_env (PyStr (py ''def f(:'')) (init None, world0) = Inr (r, self', w') \<and>
     \<not> success r \<and> result_syntax_errors r = [d] \<and> kind d = py ''ParseError'' \<and>
     line d = Some 1 \<and> column d = Some 7 \<and> message d = py ''invalid syntax'')"
proof -
  have h: "strip (py ''def f(:'') \<noteq> []"
    using not_blank_malformed by (simp add: not_blank_iff)
  from syntax_error_diagnostic [OF h toy_malformed, of "init None" world0 world0] h toy_malformed
  show ?thesis
    by (simp add: parse_malformed_example)
qed

text \<open>
  C5. A \<open>str\<close> that passes the validation and whose parse raises an exception that is
  not a \<open>SyntaxError\<close>: the result is a failure whose only diagnostic is of kind
  \<open>ParseError\<close>, without line and column, with \<open>str(e)\<close> as its message; and
  \<open>_safe_parse\<close> appends exactly this one diagnostic to the list it finds.
\<close>

theorem other_failure_diagnostic:
  assumes "strip s \<noteq> []" and "ast_parse E (PyStr s) = Inl (Exception descr)"
  shows "\<exists>r self' w' d. parse E (PyStr s) (self, w) = Inr (r, self', w') \<and>
     \<not> success r \<and> result_syntax_errors r = [d] \<and> kind d = py ''ParseError'' \<and>
     line d = None \<and> column d = None \<and> message d = descr \<and>
     safe_parse E (PyStr s) (self, w0) =
       Inr (self\<lparr>parse_success := False, syntax_errors := syntax_errors self @ [d]\<rparr>,
            w0\<lparr>parse_calls := parse_calls w0 @ [PyStr s]\<rparr>)"
proof -
  from assms(1) have "\<not> blank_input (PyStr s)"
    by (simp add: not_blank_iff)
  with assms(2) show ?thesis
    by (simp add: parse_exception safe_parse_exception Let_def build_result_def)
qed

text \<open>A text with a lone surrogate, which the stand-in parser cannot encode.\<close>

theorem other_failure_diagnostic_witness:
  "strip [120, 55296] \<noteq> [] \<and>
   ast_parse toy_env (PyStr [120, 55296]) = Inl (Exception (py ''surrogates not allowed'')) \<and>
   (\<exists>r self' w' d. parse toy_env (PyStr [120, 55296]) (init None, world0) = Inr (r, self', w') \<and>
     \<not> success r \<and> result_syntax_errors r = [d] \<and> kind d = py ''ParseError'' \<and>
     line d = None \<and> column d = None \<and> message d = py ''surrogates not allowed'')"
proof -
  have h: "strip [120, 55296] \<noteq> []"
    using not_blank_surrogate by (simp add: not_blank_iff)
  from other_failure_diagnostic [OF h toy_surrogate, of "init None" world0 world0] h toy_surrogate
  show ?thesis
    by (simp add: parse_surrogate_example)
qed



text \<open>
  C7. Right after a call of \<open>parse\<close>: \<open>has_syntax_errors\<close> returns true exactly when the
  call's list of diagnostics is not empty, \<open>get_ast\<close> returns a tree exactly when the call
  succeeded, and both leave the instance as they found it.
\<close>

theorem accessors_after_parse:
  "\<exists>r self' w'. parse E code (self, w) = Inr (r, self', w') \<and>
     (fst (has_syntax_errors self') \<longleftrightarrow> result_syntax_errors r \<noteq> []) \<and>
     (fst (get_ast self') \<noteq> None \<longleftrightarrow> success r) \<and>
     snd (has_syntax_errors self') = self' \<and> snd (get_ast self') = self'"
proof (cases rule: parse_outcome_cases [where code = code and E = E])
  case rejected
  then show ?thesis
    by (simp add: parse_rejected Let_def build_result_def has_syntax_errors_def get_ast_def)
next
  case (returns tree)
  then show ?thesis
    by (simp add: parse_returns Let_def build_result_def has_syntax_errors_def get_ast_def)
next
  case (syntax_error e)
  then show ?thesis
    by (simp add: parse_syntax_error Let_def build_result_def has_syntax_errors_def get_ast_def)
next
  case (exception descr)
  then show ?thesis
    by (simp add: parse_exception Let_def build_result_def has_syntax_errors_def get_ast_def)
qed

text \<open>Scenario A and scenario B, queried after the call.\<close>

theorem accessors_after_parse_witness:
  "(\<exists>r self' w'. parse toy_env (PyStr (py ''x = 1 + 2'')) (init None, world0) = Inr (r, self', w') \<and>
      success r \<and> \<not> fst (has_syntax_errors self') \<and> fst (get_ast self') = Some 9) \<and>
   (\<exists>r self' w'. parse toy_env (PyStr (py ''def f(:'')) (init None, world0) = Inr (r, self', w') \<and>
      \<not> success r \<and> fst (has_syntax_errors self') \<and> fst (get_ast self') = None)"
  using accessors_after_parse [of toy_env "PyStr (py ''x = 1 + 2'')" "init None" world0]
    accessors_after_parse [of toy_env "PyStr (py ''def f(:'')" "init None" world0]
  by (simp add: parse_malformed_example parse_valid_example has_syntax_errors_def get_ast_def)

text \<open>
  C8. Two calls of \<open>parse\<close> in a row, on the same instance and with the same input: the
  second result is the first one with, at most, another elapsed time. The first call may
  start from any state of the instance, since \<open>_reset_state\<close> clears what a call reads.
\<close>

theorem parse_twice_same_outcome:
  "\<exists>r1 self1 w1 r2 self2 w2.
     parse E code (self, w) = Inr (r1, self1, w1) \<and>
     parse E code (self1, w1) = Inr (r2, self2, w2) \<and>
     r2 = r1\<lparr>result_parsing_time := result_parsing_time r2\<rparr>"
proof (cases rule: parse_outcome_cases [where code = code and E = E])
  case rejected
  then show ?thesis
    by (simp add: parse_rejected Let_def build_result_def)
next
  case (returns tree)
  then show ?thesis
    by (simp add: parse_returns Let_def build_result_def)
next
  case (syntax_error e)
  then show ?thesis
    by (simp add: parse_syntax_error Let_def build_result_def)
next
  case (exception descr)
  then show ?thesis
    by (simp add: parse_exception Let_def build_result_def)
qed

text \<open>Scenario B twice: the same single diagnostic both times.\<close>

theorem parse_twice_same_outcome_witness:
  "\<exists>r1 self1 w1 r2 self2 w2.
     parse toy_env (PyStr (py ''def f(:'')) (init None, world0) = Inr (r1, self1, w1) \<and>
     parse toy_env (PyStr (py ''def f(:'')) (self1, w1) = Inr (r2, self2, w2) \<and>
     \<not> success r1 \<and> \<not> success r2 \<and> length (result_syntax_errors r1) = 1 \<and>
     result_syntax_errors r2 = result_syntax_errors r1 \<and> ast_tree r2 = ast_tree r1"
proof -
  from parse_twice_same_outcome [of toy_env "PyStr (py ''def f(:'')" "init None" world0]
  obtain r1 self1 w1 r2 self2 w2 where
    a: "parse toy_env (PyStr (py ''def f(:'')) (init None, world0) = Inr (r1, self1, w1)" and
    b: "parse toy_env (PyStr (py ''def f(:'')) (self1, w1) = Inr (r2, self2, w2)" and
    c: "r2 = r1\<lparr>result_parsing_time := result_parsing_time r2\<rparr>"
    by blast
  from a have d: "\<not> success r1 \<and> length (result_syntax_errors r1) = 1"
    by (auto simp add: parse_malformed_example)
  from c have "success r2 = success r1 \<and> result_syntax_errors r2 = result_syntax_errors r1 \<and>
      ast_tree r2 = ast_tree r1"
    by (metis ParseResult.select_convs(1,2,3) ParseResult.surjective ParseResult.update_convs(4))
  with a b d show ?thesis
    by blast
qed




text \<open>
  C10. Two instances made with any two file names, each given the same input (at any two
  moments): the results agree but for the elapsed time, the instances end up equal but
  for the stored name and the time, and the three accessors return the same values.
\<close>

theorem filename_has_no_effect:
  "\<exists>r1 self1 w1' r2 self2 w2'.
     parse E code (init f1, w1) = Inr (r1, self1, w1') \<and>
     parse E code (init f2, w2) = Inr (r2, self2, w2') \<and>
     r2 = r1\<lparr>result_parsing_time := result_parsing_time r2\<rparr> \<and>
     self2 = self1\<lparr>filenmae := f2, parsing_time := parsing_time self2\<rparr> \<and>
     fst (has_syntax_errors self2) = fst (has_syntax_errors self1) \<and>
     fst (get_ast self2) = fst (get_ast self1) \<and>
     fst (get_errors self2) = fst (get_errors self1)"
proof (cases rule: parse_outcome_cases [where code = code and E = E])
  case rejected
  then show ?thesis
    by (simp add: parse_rejected Let_def build_result_def init_def has_syntax_errors_def
          get_ast_def get_errors_def)
next
  case (returns tree)
  then show ?thesis
    by (simp add: parse_returns Let_def build_result_def init_def has_syntax_errors_def
          get_ast_def get_errors_def)
next
  case (syntax_error e)
  then show ?thesis
    by (simp add: parse_syntax_error Let_def build_result_def init_def has_syntax_errors_def
          get_ast_def get_errors_def)
next
  case (exception descr)
  then show ?thesis
    by (simp add: parse_exception Let_def build_result_def init_def has_syntax_errors_def
          get_ast_def get_errors_def)
qed

text \<open>Scenario B on an instance without name and on one named \<open>a.py\<close>.\<close>

theorem filename_has_no_effect_witness:
  "\<exists>r1 self1 w1' r2 self2 w2'.
     parse toy_env (PyStr (py ''def f(:'')) (init None, world0) = Inr (r1, self1, w1') \<and>
     parse toy_env (PyStr (py ''def f(:'')) (init (Some (py ''a.py'')), world0) = Inr (r2, self2, w2') \<and>
     r2 = r1 \<and> filenmae self1 = None \<and> filenmae self2 = Some (py ''a.py'') \<and>
     fst (get_errors self2) = fst (get_errors self1) \<and> fst (get_errors self1) \<noteq> []"
proof -
  from filename_has_no_effect [of toy_env "PyStr (py ''def f(:'')" None world0 "Some (py ''a.py'')" world0]
  obtain r1 self1 w1' r2 self2 w2' where
    a: "parse toy_env (PyStr (py ''def f(:'')) (init None, world0) = Inr (r1, self1, w1')" and
    b: "parse toy_env (PyStr (py ''def f(:'')) (init (Some (py ''a.py'')), world0) = Inr (r2, self2, w2')" and
    c: "r2 = r1\<lparr>result_parsing_time := result_parsing_time r2\<rparr>" and
    d: "self2 = self1\<lparr>filenmae := Some (py ''a.py''), parsing_time := parsing_time self2\<rparr>" and
    e: "fst (get_errors self2) = fst (get_errors self1)"
    by blast
  have f: "parse toy_env (PyStr (py ''def f(:'')) (init (Some (py ''a.py'')), world0) =
     Inr (\<lparr>success = False, ast_tree = None,
            result_syntax_errors =
              [\<lparr>kind = py ''ParseError'', line = Some 1, column = Some 7,
                message = py ''invalid syntax'', severity = py ''error'',
                stage = py ''syntax''\<rparr>],
            result_parsing_time = 1\<rparr>,
          \<lparr>filenmae = Some (py ''a.py''), source_code = Some (PyStr (py ''def f(:'')),
            ast_trees = None,
            syntax_errors =
              [\<lparr>kind = py ''ParseError'', line = Some 1, column = Some 7,
                message = py ''invalid syntax'', severity = py ''error'',
                stage = py ''syntax''\<rparr>],
            parse_success = False, parsing_time = 1\<rparr>,
          \<lparr>time_calls = 2, parse_calls = [PyStr (py ''def f(:'')]\<rparr>)"
    by (simp add: parse_syntax_error [OF not_blank_malformed toy_malformed] Let_def
          build_result_def init_def world0_def elapsed_def format_syntax_errors_def)
       (simp add: toy_env_def)
  from a b e show ?thesis
    by (auto simp add: parse_malformed_example f get_errors_def)
qed

end
